theory Spec2Isabelle
  imports Complex_Main
begin

section \<open>Exceptions and symbolic expressions\<close>

text \<open>
  Every exception the modelled code raises is a value of \<open>py_error\<close>; a function that
  may raise returns \<open>py_error + 'a\<close> with \<open>Inl\<close> for the exception.
\<close>

datatype py_error =
    ConfigurationError
  | DynamicError
  | GenericPropertyPackageError
  | AttributeError
  | TypeError
  | ValueError
  | ZeroDivisionError
  | IndexError
  | KeyError

text \<open>
  The algebraic modelling framework builds expression trees from the arithmetic operators
  applied to variables. \<open>'v\<close> is the type of variable data objects. \<open>Named\<close> is a named
  Expression component used inside another expression.
\<close>

datatype 'v expr =
    Num real
  | V 'v
  | Add "'v expr" "'v expr"
  | Sub "'v expr" "'v expr"
  | Mul "'v expr" "'v expr"
  | Div "'v expr" "'v expr"
  | Pow "'v expr" "'v expr"
  | Abs "'v expr"
  | Named string "'v expr"

datatype 'v relation = Eq "'v expr" "'v expr"

text \<open>Python's \<open>x ** y\<close> on numbers, for a natural exponent and otherwise.\<close>

definition py_pow :: "real \<Rightarrow> real \<Rightarrow> real" where
  "py_pow x y = (if 0 \<le> y \<and> y = of_int \<lfloor>y\<rfloor> then x ^ nat \<lfloor>y\<rfloor> else x powr y)"

fun eval :: "('v \<Rightarrow> real) \<Rightarrow> 'v expr \<Rightarrow> real" where
  "eval env (Num c) = c"
| "eval env (V x) = env x"
| "eval env (Add a b) = eval env a + eval env b"
| "eval env (Sub a b) = eval env a - eval env b"
| "eval env (Mul a b) = eval env a * eval env b"
| "eval env (Div a b) = eval env a / eval env b"
| "eval env (Pow a b) = py_pow (eval env a) (eval env b)"
| "eval env (Abs a) = \<bar>eval env a\<bar>"
| "eval env (Named n a) = eval env a"

fun holds :: "('v \<Rightarrow> real) \<Rightarrow> 'v relation \<Rightarrow> bool" where
  "holds env (Eq l r) = (eval env l = eval env r)"

text \<open>Python's builtin \<open>sum\<close>: the terms are added, left to right, to the start value 0.\<close>

definition py_sum :: "'v expr list \<Rightarrow> 'v expr" where
  "py_sum es = foldl Add (Num 0) es"

section \<open>State definition FPTx (state\_methods.py)\<close>

text \<open>
  The variables FPTx declares on the state block, and the two property variables its
  flow and density terms read. \<open>'p\<close> is the type of phases, \<open>'c\<close> of components.
\<close>

datatype ('p, 'c) svar =
    Flow_mol
  | Mole_frac_comp 'c
  | Pressure
  | Temperature
  | Flow_mol_phase 'p
  | Mole_frac_phase_comp 'p 'c
  | Phase_frac 'p
  | Enth_mol_phase 'p
  | Dens_mol_phase 'p

type_synonym bounds = "real option \<times> real option"

datatype var_domain = Reals | NonNegativeReals

datatype ('p, 'c) index_set =
    Scalar
  | By_comp "'c list"
  | By_phase "'p list"
  | By_phase_comp "'p list" "'c list"

record ('p, 'c) var_decl =
  var_index :: "('p, 'c) index_set"
  var_initialize :: real
  var_domain :: var_domain
  var_bounds :: bounds

text \<open>A component assigned to an attribute of the state block.\<close>

datatype ('p, 'c) component =
    Var "('p, 'c) var_decl"
  | Constraint "('p, 'c) svar relation"
  | Constraint_comp "('c \<times> ('p, 'c) svar relation) list"
  | Constraint_phase "('p \<times> ('p, 'c) svar relation) list"

text \<open>
  The parameter block \<open>b._params\<close>: its two ordered sets and the \<open>state_bounds\<close> entry of
  its config, which is \<open>None\<close> unless the package provides a dict of bounds.
\<close>

record ('p, 'c) params =
  component_list :: "'c list"
  phase_list :: "'p list"
  state_bounds :: "(string \<rightharpoonup> bounds) option"

record ('p, 'c) state_block =
  always_flash :: bool
  components :: "(string \<times> ('p, 'c) component) list"
  state_do_not_initialize :: "string list"

text \<open>
  \<open>try: state_bounds[k] except KeyError: (None, None)\<close>. Subscripting \<open>None\<close> raises
  TypeError, which the \<open>except\<close> clause does not catch.
\<close>

definition get_bounds :: "('p, 'c) params \<Rightarrow> string \<Rightarrow> py_error + bounds" where
  "get_bounds prm k =
     (case state_bounds prm of
        None \<Rightarrow> Inl TypeError
      | Some sb \<Rightarrow> (case sb k of None \<Rightarrow> Inr (None, None) | Some bnd \<Rightarrow> Inr bnd))"

text \<open>\<open>1 / len(s)\<close>, which raises for an empty set.\<close>

definition inv_len :: "'a list \<Rightarrow> py_error + real" where
  "inv_len xs = (if length xs = 0 then Inl ZeroDivisionError else Inr (1 / real (length xs)))"

definition sum_mole_frac_out_expr :: "('p, 'c) params \<Rightarrow> ('p, 'c) svar relation" where
  "sum_mole_frac_out_expr prm =
     Eq (Num 1) (py_sum (map (\<lambda>i. V (Mole_frac_comp i)) (component_list prm)))"

definition general_comp_mass_balance :: "('p, 'c) params \<Rightarrow> 'c \<Rightarrow> ('p, 'c) svar relation" where
  "general_comp_mass_balance prm i =
     Eq (Mul (V Flow_mol) (V (Mole_frac_comp i)))
        (py_sum (map (\<lambda>p. Mul (V (Flow_mol_phase p)) (V (Mole_frac_phase_comp p i)))
                     (phase_list prm)))"

definition general_sum_mole_frac :: "('p, 'c) params \<Rightarrow> 'p \<Rightarrow> ('p, 'c) svar relation" where
  "general_sum_mole_frac prm p =
     Eq (py_sum (map (\<lambda>i. V (Mole_frac_phase_comp p i)) (component_list prm))) (Num 1)"

definition general_phase_frac :: "'p \<Rightarrow> ('p, 'c) svar relation" where
  "general_phase_frac p = Eq (Mul (V (Phase_frac p)) (V Flow_mol)) (V (Flow_mol_phase p))"

text \<open>The state and supporting variables, in the order FPTx adds them.\<close>

definition state_variables ::
  "('p, 'c) params \<Rightarrow> bounds \<Rightarrow> bounds \<Rightarrow> bounds \<Rightarrow> real \<Rightarrow> real
   \<Rightarrow> (string \<times> ('p, 'c) component) list" where
  "state_variables prm f_bounds t_bounds p_bounds xc xp =
         [(''flow_mol'', Var \<lparr>var_index = Scalar, var_initialize = 1,
             var_domain = NonNegativeReals, var_bounds = f_bounds\<rparr>),
          (''mole_frac_comp'', Var \<lparr>var_index = By_comp (component_list prm),
             var_initialize = xc, var_domain = Reals, var_bounds = (Some 0, None)\<rparr>),
          (''pressure'', Var \<lparr>var_index = Scalar, var_initialize = 101325,
             var_domain = NonNegativeReals, var_bounds = p_bounds\<rparr>),
          (''temperature'', Var \<lparr>var_index = Scalar, var_initialize = 298.15,
             var_domain = NonNegativeReals, var_bounds = t_bounds\<rparr>),
          (''flow_mol_phase'', Var \<lparr>var_index = By_phase (phase_list prm),
             var_initialize = 0.5, var_domain = NonNegativeReals, var_bounds = f_bounds\<rparr>),
          (''mole_frac_phase_comp'',
             Var \<lparr>var_index = By_phase_comp (phase_list prm) (component_list prm),
             var_initialize = xc, var_domain = Reals, var_bounds = (Some 0, None)\<rparr>),
          (''phase_frac'', Var \<lparr>var_index = By_phase (phase_list prm),
             var_initialize = xp, var_domain = Reals, var_bounds = (Some 0, None)\<rparr>)]"

text \<open>
  The supporting constraints: the three branches on \<open>len(b._params.phase_list)\<close>. The
  ordered set is indexed from 1, so \<open>phase_list[1]\<close> and \<open>phase_list[2]\<close> are the first
  and second phase.
\<close>

definition supporting_constraints ::
  "('p, 'c) params \<Rightarrow> bool \<Rightarrow> (string \<times> ('p, 'c) component) list" where
  "supporting_constraints prm defined_state =
     (case phase_list prm of
        [p1] \<Rightarrow>
          [(''total_flow_balance'', Constraint (Eq (V (Flow_mol_phase p1)) (V Flow_mol))),
           (''component_flow_balances'', Constraint_comp
              (map (\<lambda>i. (i, Eq (V (Mole_frac_comp i)) (V (Mole_frac_phase_comp p1 i))))
                   (component_list prm)))]
          @ (if defined_state = False
             then [(''sum_mole_frac_out'', Constraint (sum_mole_frac_out_expr prm))] else [])
          @ [(''phase_fraction_constraint'', Constraint_phase
              (map (\<lambda>p. (p, Eq (V (Phase_frac p)) (Num 1))) (phase_list prm)))]
      | [p1, p2] \<Rightarrow>
          [(''total_flow_balance'', Constraint
              (Eq (py_sum (map (\<lambda>p. V (Flow_mol_phase p)) (phase_list prm))) (V Flow_mol))),
           (''component_flow_balances'', Constraint_comp
              (map (\<lambda>i. (i, general_comp_mass_balance prm i)) (component_list prm))),
           (''sum_mole_frac'', Constraint
              (Eq (Sub (py_sum (map (\<lambda>i. V (Mole_frac_phase_comp p1 i)) (component_list prm)))
                       (py_sum (map (\<lambda>i. V (Mole_frac_phase_comp p2 i)) (component_list prm))))
                  (Num 0)))]
          @ (if defined_state = False
             then [(''sum_mole_frac_out'', Constraint (sum_mole_frac_out_expr prm))] else [])
          @ [(''phase_fraction_constraint'', Constraint_phase
              (map (\<lambda>p. (p, general_phase_frac p)) (phase_list prm)))]
      | _ \<Rightarrow>
          [(''component_flow_balances'', Constraint_comp
              (map (\<lambda>i. (i, general_comp_mass_balance prm i)) (component_list prm))),
           (''sum_mole_frac'', Constraint_phase
              (map (\<lambda>p. (p, general_sum_mole_frac prm p)) (phase_list prm)))]
          @ (if defined_state = False
             then [(''sum_mole_frac_out'', Constraint (sum_mole_frac_out_expr prm))] else [])
          @ [(''phase_fraction_constraint'', Constraint_phase
              (map (\<lambda>p. (p, general_phase_frac p)) (phase_list prm)))])"

text \<open>
  \<open>FPTx(b)\<close>: the block after the call, or the exception. The bounds are read first;
  the initial values \<open>1 / len(component_list)\<close> and \<open>1 / len(phase_list)\<close> are computed
  while the variables are declared, before any constraint is added.
\<close>

definition FPTx :: "('p, 'c) params \<Rightarrow> bool \<Rightarrow> py_error + ('p, 'c) state_block" where
  "FPTx prm defined_state =
     (case get_bounds prm ''flow_mol'' of
        Inl e \<Rightarrow> Inl e
      | Inr f_bounds \<Rightarrow>
     (case get_bounds prm ''temperature'' of
        Inl e \<Rightarrow> Inl e
      | Inr t_bounds \<Rightarrow>
     (case get_bounds prm ''pressure'' of
        Inl e \<Rightarrow> Inl e
      | Inr p_bounds \<Rightarrow>
     (case inv_len (component_list prm) of
        Inl e \<Rightarrow> Inl e
      | Inr xc \<Rightarrow>
     (case inv_len (phase_list prm) of
        Inl e \<Rightarrow> Inl e
      | Inr xp \<Rightarrow>
          Inr \<lparr>always_flash = True,
               components = state_variables prm f_bounds t_bounds p_bounds xc xp
                            @ supporting_constraints prm defined_state,
               state_do_not_initialize = [''sum_mole_frac_out'']\<rparr>)))))"

text \<open>The attribute \<open>name\<close> of a block, if the call returned one that has it.\<close>

definition component :: "('p, 'c) state_block \<Rightarrow> string \<Rightarrow> ('p, 'c) component option" where
  "component b name = map_of (components b) name"

definition has_component :: "py_error + ('p, 'c) state_block \<Rightarrow> string \<Rightarrow> bool" where
  "has_component r name = (case r of Inl e \<Rightarrow> False | Inr b \<Rightarrow> component b name \<noteq> None)"

text \<open>The general methods FPTx attaches to the block.\<close>

definition get_material_flow_terms_FPTx ::
  "('p, 'c) params \<Rightarrow> 'p \<Rightarrow> 'c \<Rightarrow> ('p, 'c) svar expr" where
  "get_material_flow_terms_FPTx prm p j =
     (if j \<in> set (component_list prm)
      then Mul (V (Flow_mol_phase p)) (V (Mole_frac_phase_comp p j)) else Num 0)"

definition get_enthalpy_flow_terms_FPTx :: "'p \<Rightarrow> ('p, 'c) svar expr" where
  "get_enthalpy_flow_terms_FPTx p = Mul (V (Flow_mol_phase p)) (V (Enth_mol_phase p))"

definition get_material_density_terms_FPTx ::
  "('p, 'c) params \<Rightarrow> 'p \<Rightarrow> 'c \<Rightarrow> ('p, 'c) svar expr" where
  "get_material_density_terms_FPTx prm p j =
     (if j \<in> set (component_list prm)
      then Mul (V (Dens_mol_phase p)) (V (Mole_frac_phase_comp p j)) else Num 0)"

definition get_enthalpy_density_terms_FPTx :: "'p \<Rightarrow> ('p, 'c) svar expr" where
  "get_enthalpy_density_terms_FPTx p = Mul (V (Dens_mol_phase p)) (V (Enth_mol_phase p))"

text \<open>
  \<open>define_state_vars\<close>: the dict of state variables, each with its local name and
  whether it is indexed.
\<close>

record state_var =
  local_name :: string
  is_indexed :: bool


text \<open>A parameter block with two components and three phases.\<close>

definition params3 :: "(nat, string) params" where
  "params3 = \<lparr>component_list = [''a'', ''b''], phase_list = [1, 2, 3],
               state_bounds = Some Map.empty\<rparr>"

text \<open>A parameter block with two components and two phases.\<close>

definition params2 :: "(nat, string) params" where
  "params2 = \<lparr>component_list = [''a'', ''b''], phase_list = [1, 2],
               state_bounds = Some Map.empty\<rparr>"

section \<open>Product block (product.py)\<close>

text \<open>
  A state variable is referenced through a slice of the indexed state block:
  \<open>properties[:].component(l_name)\<close>, followed by \<open>[...]\<close> when the variable is indexed.
\<close>

datatype slicer = Component_slice string | Component_slice_all string

text \<open>
  The keyword arguments \<open>build_state_block\<close> receives: the index set (the first, positional
  argument), the three keywords \<open>build\<close> passes by name, and the entries of
  \<open>property_package_args\<close>.
\<close>

record ('t, 'a) state_block_args =
  sb_index :: "'t list"
  sb_doc :: string
  sb_defined_state :: bool
  sb_has_phase_equilibrium :: bool
  sb_package_args :: "(string \<times> 'a) list"

text \<open>
  The indexed state block the property package builds: it keeps the arguments it was built
  with, and every member reports the package's state variables from \<open>define_state_vars\<close>.
\<close>

record ('t, 'a) properties_block =
  pb_args :: "('t, 'a) state_block_args"
  pb_state_vars :: "(string \<times> state_var) list"

text \<open>
  \<open>config.property_package\<close> as \<open>build\<close> reads it: still the default \<open>useDefault\<close>, which
  has no \<open>build_state_block\<close>, or a physical parameter block, given by the state variables
  its state blocks define.
\<close>

datatype property_package = useDefault | PhysicalParameterBlock "(string \<times> state_var) list"

record 'a product_config =
  property_package :: property_package
  property_package_args :: "(string \<times> 'a) list"

text \<open>
  The unit model block has one namespace of attributes. \<open>build\<close> sets three kinds: the
  state block, a Reference to a slice of the object that \<open>self.properties\<close> is at that
  moment, and a port attached to an object. \<open>Other_attr\<close> is anything else the block holds.
\<close>

datatype ('t, 'a) attribute =
    State_block_attr "('t, 'a) properties_block"
  | Reference_attr "('t, 'a) attribute" slicer
  | Port_attr "('t, 'a) attribute" string
  | Other_attr

record ('t, 'a) product_block =
  attributes :: "string \<rightharpoonup> ('t, 'a) attribute"

definition set_attr ::
  "string \<Rightarrow> ('t, 'a) attribute \<Rightarrow> ('t, 'a) product_block \<Rightarrow> ('t, 'a) product_block" where
  "set_attr name obj blk = blk\<lparr>attributes := (attributes blk)(name \<mapsto> obj)\<rparr>"

definition get_attr ::
  "string \<Rightarrow> ('t, 'a) product_block \<Rightarrow> py_error + ('t, 'a) attribute" where
  "get_attr name blk = (case attributes blk name of None \<Rightarrow> Inl AttributeError | Some obj \<Rightarrow> Inr obj)"

text \<open>
  \<open>self.config.property_package.build_state_block(time, doc=..., defined_state=True,
  has_phase_equilibrium=False, **self.config.property_package_args)\<close>. The attribute lookup
  on \<open>useDefault\<close> raises AttributeError; the call raises TypeError when
  \<open>property_package_args\<close> repeats one of the keywords given by name.
\<close>

definition call_build_state_block ::
  "'a product_config \<Rightarrow> 't list \<Rightarrow> py_error + ('t, 'a) properties_block" where
  "call_build_state_block cfg time_domain =
     (case property_package cfg of
        useDefault \<Rightarrow> Inl AttributeError
      | PhysicalParameterBlock state_vars \<Rightarrow>
          (if \<exists>k \<in> set (map fst (property_package_args cfg)).
                 k \<in> {''doc'', ''defined_state'', ''has_phase_equilibrium''}
           then Inl TypeError
           else Inr \<lparr>pb_args = \<lparr>sb_index = time_domain,
                                  sb_doc = ''Material properties in product'',
                                  sb_defined_state = True,
                                  sb_has_phase_equilibrium = False,
                                  sb_package_args = property_package_args cfg\<rparr>,
                     pb_state_vars = state_vars\<rparr>))"

text \<open>
  \<open>self.properties[self.flowsheet().time.first()].define_state_vars()\<close>: \<open>first()\<close> raises
  on an empty set.
\<close>

definition first_state_vars ::
  "('t, 'a) properties_block \<Rightarrow> 't list \<Rightarrow> py_error + (string \<times> state_var) list" where
  "first_state_vars props time_domain =
     (case time_domain of [] \<Rightarrow> Inl IndexError | t # ts \<Rightarrow> Inr (pb_state_vars props))"

definition slicer_of :: "state_var \<Rightarrow> slicer" where
  "slicer_of v =
     (if is_indexed v then Component_slice_all (local_name v)
      else Component_slice (local_name v))"

text \<open>
  The loop \<open>for s in s_vars\<close>: it runs over the keys of the dict, looks each one up with
  \<open>s_vars[s]\<close>, slices \<open>self.properties\<close> as it is at that iteration, and sets the attribute
  \<open>s\<close> of the unit block to the Reference.
\<close>

fun add_references ::
  "(string \<times> state_var) list \<Rightarrow> string list \<Rightarrow> ('t, 'a) product_block
   \<Rightarrow> py_error + ('t, 'a) product_block" where
  "add_references s_vars [] blk = Inr blk"
| "add_references s_vars (s # ss) blk =
     (case map_of s_vars s of
        None \<Rightarrow> Inl KeyError
      | Some v \<Rightarrow>
          (case get_attr ''properties'' blk of
             Inl e \<Rightarrow> Inl e
           | Inr obj \<Rightarrow>
               add_references s_vars ss (set_attr s (Reference_attr obj (slicer_of v)) blk)))"

text \<open>\<open>self.add_port(name=..., block=..., doc=...)\<close>: the port becomes the attribute \<open>name\<close>.\<close>

definition add_port ::
  "string \<Rightarrow> ('t, 'a) attribute \<Rightarrow> string \<Rightarrow> ('t, 'a) product_block
   \<Rightarrow> ('t, 'a) product_block" where
  "add_port name block doc blk = set_attr name (Port_attr block doc) blk"

text \<open>
  \<open>ProductData.build\<close>. \<open>blk0\<close> is the block as \<open>super().build()\<close> leaves it and
  \<open>time_domain\<close> is \<open>self.flowsheet().time\<close>.
\<close>

definition Product_build ::
  "'a product_config \<Rightarrow> 't list \<Rightarrow> ('t, 'a) product_block
   \<Rightarrow> py_error + ('t, 'a) product_block" where
  "Product_build cfg time_domain blk0 =
     (case call_build_state_block cfg time_domain of
        Inl e \<Rightarrow> Inl e
      | Inr props \<Rightarrow>
     (let blk1 = set_attr ''properties'' (State_block_attr props) blk0 in
     (case first_state_vars props time_domain of
        Inl e \<Rightarrow> Inl e
      | Inr s_vars \<Rightarrow>
     (case add_references s_vars (map fst s_vars) blk1 of
        Inl e \<Rightarrow> Inl e
      | Inr blk2 \<Rightarrow>
     (case get_attr ''properties'' blk2 of
        Inl e \<Rightarrow> Inl e
      | Inr block \<Rightarrow> Inr (add_port ''inlet'' block ''Inlet Port'' blk2))))))"






section \<open>Compression stage (compressor.py)\<close>

datatype ImpellerType = cover_impeller | open_impeller | custom_impeller

datatype VaneDiffuserType = vane_diffuser | vaneless_diffuser | custom_diffuser

text \<open>The time-indexed variables of the stage that the impeller and diffuser equations use.\<close>

datatype 't cvar =
    Mass_flow_coeff 't
  | Impeller_work_coeff 't
  | Mu_p_v 't
  | Mu_p 't
  | Eff_p_v 't
  | Eff_p 't

text \<open>
  The stage block: the flowsheet's time domain, the time-indexed constraints added so far
  (by name, in order), and the warnings written to the module's logger.
\<close>

record 't stage =
  stage_time :: "'t list"
  stage_constraints :: "(string \<times> ('t \<times> 't cvar relation) list) list"
  stage_warnings :: "string list"

text \<open>
  The config arguments of the stage. An unset type or callback is \<open>None\<close>, the declared
  default. A callback takes the block and adds components to it.
\<close>

record 't stage_config =
  impeller_type :: "ImpellerType option"
  vane_diffuser_type :: "VaneDiffuserType option"
  impeller_callback :: "('t stage \<Rightarrow> 't stage) option"
  vane_diffuser_callback :: "('t stage \<Rightarrow> 't stage) option"

text \<open>\<open>@blk.Constraint(blk.flowsheet().config.time)\<close> on a rule named \<open>name\<close>.\<close>

definition add_constraint ::
  "string \<Rightarrow> ('t \<Rightarrow> 't cvar relation) \<Rightarrow> 't stage \<Rightarrow> 't stage" where
  "add_constraint name rule blk =
     blk\<lparr>stage_constraints :=
           stage_constraints blk @ [(name, map (\<lambda>t. (t, rule t)) (stage_time blk))]\<rparr>"

definition log_warning :: "string \<Rightarrow> 't stage \<Rightarrow> 't stage" where
  "log_warning msg blk = blk\<lparr>stage_warnings := stage_warnings blk @ [msg]\<rparr>"

definition build_cover_impeller_equations :: "'t stage \<Rightarrow> 't stage" where
  "build_cover_impeller_equations blk =
     add_constraint ''polytropic_head_coeff_vaned_diffuser_eqn''
       (\<lambda>t. let phi = V (Mass_flow_coeff t)
             in Eq (Mul (Mul (V (Mu_p_v t)) (Num 100)) phi)
                   (Mul (Sub (Sub (Add (Mul (Num 0.51) phi) (Pow phi (Num 2)))
                                  (Mul (Num 7.6) (Pow phi (Num 3))))
                             (Num 0.00025))
                        (Num 100)))
       (add_constraint ''impeller_work_coeff_eqn''
          (\<lambda>t. let phi = V (Mass_flow_coeff t)
                in Eq (Mul (Mul (V (Impeller_work_coeff t)) (Num 100)) phi)
                      (Mul (Add (Sub (Mul (Num 0.62) phi)
                                     (Mul phi (Pow (Div phi (Num 0.4)) (Num 3))))
                                (Num 0.0014))
                           (Num 100)))
          blk)"

definition build_open_impeller_equations :: "'t stage \<Rightarrow> 't stage" where
  "build_open_impeller_equations blk =
     add_constraint ''polytropic_head_coeff_vaned_diffuser_eqn''
       (\<lambda>t. let phi = V (Mass_flow_coeff t);
                 sgn = Div (Sub phi (Num 0.065)) (Abs (Sub phi (Num 0.065)))
             in Eq (Mul (V (Mu_p_v t)) phi)
                   (Add (Mul (Mul (Num 0.5) (Add (Num 1) sgn))
                             (Sub (Sub (Add (Mul (Num 0.59) phi) (Mul (Num 0.7) (Pow phi (Num 2))))
                                       (Mul (Num 7.5) (Pow phi (Num 3))))
                                  (Num 0.00025)))
                        (Mul (Mul (Mul (Num 0.5) (Sub (Num 1) sgn)) (Num 0.6)) phi)))
       (add_constraint ''impeller_work_coeff_eqn''
          (\<lambda>t. let phi = V (Mass_flow_coeff t)
                in Eq (Mul (V (Impeller_work_coeff t)) phi)
                      (Add (Sub (Mul (Num 0.68) phi)
                                (Mul phi (Pow (Div phi (Num 0.37)) (Num 3))))
                           (Num 0.002)))
          blk)"

definition build_vane_diffuser_equations :: "'t stage \<Rightarrow> 't stage" where
  "build_vane_diffuser_equations blk =
     add_constraint ''polytropic_efficiency_eqn''
       (\<lambda>t. Eq (V (Eff_p t)) (V (Eff_p_v t)))
       (add_constraint ''polytropic_head_coeff_eqn''
          (\<lambda>t. Eq (V (Mu_p t)) (V (Mu_p_v t)))
          blk)"

definition build_vaneless_diffuser_equations :: "'t stage \<Rightarrow> 't stage" where
  "build_vaneless_diffuser_equations blk =
     add_constraint ''polytropic_efficiency_eqn''
       (\<lambda>t. let phi = V (Mass_flow_coeff t)
             in Eq (Mul (Sub (V (Eff_p t)) (V (Eff_p_v t)))
                        (Add (Add (Num 0.04) (Mul (Num 5) phi)) (Pow (V (Eff_p_v t)) (Num 3))))
                   (Num (- 0.017)))
       (add_constraint ''polytropic_head_coeff_eqn''
          (\<lambda>t. Eq (V (Mu_p t)) (Mul (V (Impeller_work_coeff t)) (V (Eff_p t))))
          blk)"

text \<open>"set up the vane diffuser rule": the \<open>if\<close>/\<open>elif\<close> chain of \<open>build\<close>.\<close>

definition setup_vane_diffuser :: "'t stage_config \<Rightarrow> 't stage \<Rightarrow> py_error + 't stage" where
  "setup_vane_diffuser cfg blk =
     (let vdcb = vane_diffuser_callback cfg;
          vdselect = vane_diffuser_type cfg
      in if vdselect \<noteq> Some custom_diffuser \<and> vdcb \<noteq> None
         then Inr (log_warning ''A valve diffuser type is not custom.'' blk)
         else if vdselect = Some vane_diffuser
         then Inr (build_vane_diffuser_equations blk)
         else if vdselect = Some vaneless_diffuser
         then Inr (build_vaneless_diffuser_equations blk)
         else (case vdcb of
                 None \<Rightarrow> Inl ConfigurationError
               | Some cb \<Rightarrow> Inr (cb blk)))"

text \<open>"set up the impeller rule".\<close>

definition setup_impeller :: "'t stage_config \<Rightarrow> 't stage \<Rightarrow> py_error + 't stage" where
  "setup_impeller cfg blk =
     (let icb = impeller_callback cfg;
          iselect = impeller_type cfg
      in if iselect \<noteq> Some custom_impeller \<and> icb \<noteq> None
         then Inr (log_warning ''An impeller type is not custom.'' blk)
         else if iselect = Some cover_impeller
         then Inr (build_cover_impeller_equations blk)
         else if iselect = Some open_impeller
         then Inr (build_open_impeller_equations blk)
         else (case icb of
                 None \<Rightarrow> Inl ConfigurationError
               | Some cb \<Rightarrow> Inr (cb blk)))"

text \<open>
  \<open>CompressionStageData.build\<close> from the diffuser rule on: \<open>blk\<close> is the block as the
  first part of \<open>build\<close> leaves it (ports, variables, \<open>Ma_con\<close> and \<open>rspeed_con\<close>). After the
  two rules the method adds \<open>eff_p_v_cons\<close> and the correlations on the property blocks,
  of which the first is kept here.
\<close>

definition CompressionStage_build :: "'t stage_config \<Rightarrow> 't stage \<Rightarrow> py_error + 't stage" where
  "CompressionStage_build cfg blk =
     (case setup_vane_diffuser cfg blk of
        Inl e \<Rightarrow> Inl e
      | Inr blk1 \<Rightarrow>
          (case setup_impeller cfg blk1 of
             Inl e \<Rightarrow> Inl e
           | Inr blk2 \<Rightarrow>
               Inr (add_constraint ''eff_p_v_cons''
                      (\<lambda>t. Eq (Mul (V (Eff_p_v t)) (V (Impeller_work_coeff t))) (V (Mu_p_v t)))
                      blk2)))"

text \<open>
  A stage over the time domain \<open>[0]\<close>, a callback that adds one equation of its own, and
  a config that selects the vane diffuser and the cover impeller and also passes the
  callback as \<open>vane_diffuser_callback\<close>.
\<close>

definition stage0 :: "nat stage" where
  "stage0 = \<lparr>stage_time = [0], stage_constraints = [], stage_warnings = []\<rparr>"

definition custom_callback :: "nat stage \<Rightarrow> nat stage" where
  "custom_callback = add_constraint ''custom_eqn'' (\<lambda>t. Eq (V (Mu_p t)) (Num 0.5))"

definition stage_config_vane_with_callback :: "nat stage_config" where
  "stage_config_vane_with_callback =
     \<lparr>impeller_type = Some cover_impeller, vane_diffuser_type = Some vane_diffuser,
      impeller_callback = None, vane_diffuser_callback = Some custom_callback\<rparr>"

text \<open>The names of the constraints on the block a call returned.\<close>

definition constraint_names :: "py_error + 't stage \<Rightarrow> string list" where
  "constraint_names r = (case r of Inl e \<Rightarrow> [] | Inr blk \<Rightarrow> map fst (stage_constraints blk))"

definition logged_warnings :: "py_error + 't stage \<Rightarrow> string list" where
  "logged_warnings r = (case r of Inl e \<Rightarrow> [] | Inr blk \<Rightarrow> stage_warnings blk)"

section \<open>Generic property package core (generic\_property.py, read from its tests)\<close>

text \<open>
  The Python values the tests of the generic property package pass as config arguments.
\<close>

datatype pyval =
    PyNone
  | PyStr string
  | PyInt int
  | PyList "pyval list"
  | PyTuple "pyval list"
  | PyDict "(pyval \<times> pyval) list"
  | PyFunction string
  | PyModule string "(string \<times> pyval) list"

text \<open>
  Modelled from the spec: \<open>get_method\<close> of generic\_property.py, which is not among the
  sources; only its tests (\<open>TestGetMethod\<close>) are. The state block reaches the config of its
  parameter block through \<open>_params\<close>; the config is the list of its declared entries, an
  entry left at its default being \<open>PyNone\<close>. A module is its name and its attributes; an
  attribute the module does not have raises AttributeError, as \<open>getattr\<close> does.
\<close>

record generic_state_block =
  params_config :: "(string \<times> pyval) list"

definition get_method :: "generic_state_block \<Rightarrow> string \<Rightarrow> py_error + pyval" where
  "get_method blk config_arg =
     (case map_of (params_config blk) config_arg of
        None \<Rightarrow> Inl AttributeError
      | Some PyNone \<Rightarrow> Inl GenericPropertyPackageError
      | Some (PyFunction f) \<Rightarrow> Inr (PyFunction f)
      | Some (PyModule m attrs) \<Rightarrow>
          (case map_of attrs config_arg of
             None \<Rightarrow> Inl AttributeError
           | Some v \<Rightarrow> Inr v)
      | Some _ \<Rightarrow> Inl ConfigurationError)"

text \<open>
  The frame of \<open>TestGetMethod\<close>: one declared entry \<open>dummy_option\<close>, set by each test, and
  the test module with its function \<open>dummy_option\<close>.
\<close>

definition frame :: "pyval \<Rightarrow> generic_state_block" where
  "frame v = \<lparr>params_config = [(''dummy_option'', v)]\<rparr>"

definition test_module :: pyval where
  "test_module = PyModule ''test_generic_property'' [(''dummy_option'', PyFunction ''dummy_option'')]"

text \<open>
  Modelled from the spec: \<open>GenericParameterData.build\<close> of generic\_property.py, which is
  not among the sources; only its tests (\<open>TestGenericParameterBlock\<close>) are. A config
  argument that is not provided is \<open>None\<close>. The checks are those the tests name, in the
  order of the tests: the component list, the phase list, the phase-component list, that
  both phase-equilibrium arguments come together, and the form of the phase-equilibrium
  dict (a dict whose values are lists of a component and a 2-tuple of phases).
\<close>

record generic_config =
  gc_component_list :: "pyval list option"
  gc_phase_list :: "pyval list option"
  gc_state_definition :: "pyval option"
  gc_equation_of_state :: "pyval option"
  gc_phase_component_list :: "(pyval \<times> pyval list) list option"
  gc_phase_equilibrium_formulation :: "pyval option"
  gc_phase_equilibrium_dict :: "pyval option"

record generic_parameter_block =
  gp_component_list :: "pyval list"
  gp_phase_list :: "pyval list"
  phase_equilibrium_list :: "(pyval \<times> pyval) list option"
  phase_equilibrium_idx :: "pyval list option"

definition valid_phase_component_list ::
  "pyval list \<Rightarrow> pyval list \<Rightarrow> (pyval \<times> pyval list) list \<Rightarrow> bool" where
  "valid_phase_component_list comps phases pcl =
     list_all (\<lambda>(p, js). p \<in> set phases \<and> list_all (\<lambda>j. j \<in> set comps) js) pcl"

fun valid_phase_equilibrium :: "pyval list \<Rightarrow> pyval list \<Rightarrow> pyval \<Rightarrow> bool" where
  "valid_phase_equilibrium comps phases (PyList [c, PyTuple [p1, p2]]) =
     (c \<in> set comps \<and> p1 \<in> set phases \<and> p2 \<in> set phases)"
| "valid_phase_equilibrium comps phases v = False"

definition GenericParameterData_build :: "generic_config \<Rightarrow> py_error + generic_parameter_block" where
  "GenericParameterData_build cfg =
     (case gc_component_list cfg of
        None \<Rightarrow> Inl ConfigurationError
      | Some comps \<Rightarrow>
     (case gc_phase_list cfg of
        None \<Rightarrow> Inl ConfigurationError
      | Some phases \<Rightarrow>
     (if \<not> (case gc_phase_component_list cfg of
                None \<Rightarrow> True
              | Some pcl \<Rightarrow> valid_phase_component_list comps phases pcl)
      then Inl ConfigurationError
      else if (gc_phase_equilibrium_formulation cfg = None)
              \<noteq> (gc_phase_equilibrium_dict cfg = None)
      then Inl ConfigurationError
      else
        (case gc_phase_equilibrium_dict cfg of
           None \<Rightarrow>
             Inr \<lparr>gp_component_list = comps, gp_phase_list = phases,
                  phase_equilibrium_list = None, phase_equilibrium_idx = None\<rparr>
         | Some (PyDict d) \<Rightarrow>
             (if list_all (\<lambda>(k, v). valid_phase_equilibrium comps phases v) d
              then Inr \<lparr>gp_component_list = comps, gp_phase_list = phases,
                        phase_equilibrium_list = Some d,
                        phase_equilibrium_idx = Some (map fst d)\<rparr>
              else Inl ConfigurationError)
         | Some _ \<Rightarrow> Inl ConfigurationError))))"

text \<open>The config arguments of the tests.\<close>

definition test_config :: generic_config where
  "test_config =
     \<lparr>gc_component_list = Some [PyStr ''a'', PyStr ''b'', PyStr ''c''],
      gc_phase_list = Some [PyInt 1, PyInt 2],
      gc_state_definition = Some (PyStr ''foo''),
      gc_equation_of_state = Some (PyDict [(PyInt 1, PyStr ''foo''), (PyInt 2, PyStr ''bar'')]),
      gc_phase_component_list = None,
      gc_phase_equilibrium_formulation = None,
      gc_phase_equilibrium_dict = None\<rparr>"

definition test_phase_equilibrium_dict :: "(pyval \<times> pyval) list" where
  "test_phase_equilibrium_dict =
     [(PyInt 1, PyList [PyStr ''a'', PyTuple [PyInt 1, PyInt 2]])]"

section \<open>Properties of FPTx\<close>

lemma eval_foldl_Add:
  "eval env (foldl Add a es) = eval env a + sum_list (map (eval env) es)"
  by (induction es arbitrary: a) simp_all

lemma eval_py_sum: "eval env (py_sum es) = sum_list (map (eval env) es)"
  by (simp add: py_sum_def eval_foldl_Add)

lemma map_of_state_variables:
  "name \<notin> {''flow_mol'', ''mole_frac_comp'', ''pressure'', ''temperature'',
            ''flow_mol_phase'', ''mole_frac_phase_comp'', ''phase_frac''}
   \<Longrightarrow> map_of (state_variables prm fb tb pb xc xp) name = None"
  by (simp add: state_variables_def)

text \<open>FPTx raises TypeError when the parameter block has no \<open>state_bounds\<close>.\<close>

lemma FPTx_state_bounds_None:
  "state_bounds prm = None \<Longrightarrow> FPTx prm ds = Inl TypeError"
  by (simp add: FPTx_def get_bounds_def)

lemma get_bounds_Some:
  "state_bounds prm = Some sb \<Longrightarrow> \<exists>bnd. get_bounds prm k = Inr bnd"
  by (simp add: get_bounds_def split: option.splits)

text \<open>FPTx returns a block exactly when the bounds are a dict and neither set is empty.\<close>

lemma FPTx_Inr_iff:
  "(\<exists>b. FPTx prm ds = Inr b) \<longleftrightarrow>
     state_bounds prm \<noteq> None \<and> component_list prm \<noteq> [] \<and> phase_list prm \<noteq> []"
proof (cases "state_bounds prm")
  case None
  then show ?thesis by (simp add: FPTx_state_bounds_None)
next
  case (Some sb)
  obtain fb tb pb where
    "get_bounds prm ''flow_mol'' = Inr fb" "get_bounds prm ''temperature'' = Inr tb"
    "get_bounds prm ''pressure'' = Inr pb"
    using get_bounds_Some [OF Some] by meson
  then show ?thesis
    using Some by (simp add: FPTx_def inv_len_def)
qed

lemma component_FPTx:
  assumes "FPTx prm ds = Inr b"
      and "name \<notin> {''flow_mol'', ''mole_frac_comp'', ''pressure'', ''temperature'',
            ''flow_mol_phase'', ''mole_frac_phase_comp'', ''phase_frac''}"
  shows "component b name = map_of (supporting_constraints prm ds) name"
proof -
  from assms(1) obtain fb tb pb xc xp where
    "b = \<lparr>always_flash = True,
          components = state_variables prm fb tb pb xc xp @ supporting_constraints prm ds,
          state_do_not_initialize = [''sum_mole_frac_out'']\<rparr>"
    by (auto simp: FPTx_def split: sum.splits)
  then show ?thesis
    by (simp add: component_def map_add_def map_of_state_variables [OF assms(2)])
qed

lemma sum_mole_frac_out_supporting:
  "map_of (supporting_constraints prm ds) ''sum_mole_frac_out'' =
     (if ds = False then Some (Constraint (sum_mole_frac_out_expr prm)) else None)"
  by (simp add: supporting_constraints_def split: list.splits)

text \<open>
  Claim C1. Whenever the parameter block provides \<open>state_bounds\<close> and the component list and
  the phase list are not empty, FPTx returns, and (for one, two, and three or more phases
  alike) the block has the constraint \<open>sum_mole_frac_out\<close> if and only if \<open>defined_state\<close>
  is False; that constraint holds exactly when the component mole fractions sum to 1.
\<close>

theorem FPTx_sum_mole_frac_out:
  assumes "state_bounds prm \<noteq> None"
      and "component_list prm \<noteq> []" and "phase_list prm \<noteq> []"
  shows "\<exists>b. FPTx prm defined_state = Inr b \<and>
           component b ''sum_mole_frac_out'' =
             (if defined_state = False then Some (Constraint (sum_mole_frac_out_expr prm))
              else None) \<and>
           (\<forall>env. holds env (sum_mole_frac_out_expr prm) \<longleftrightarrow>
                  1 = (\<Sum>i\<leftarrow>component_list prm. env (Mole_frac_comp i)))"
proof -
  obtain b where b: "FPTx prm defined_state = Inr b"
    using assms FPTx_Inr_iff by blast
  have "component b ''sum_mole_frac_out'' =
          map_of (supporting_constraints prm defined_state) ''sum_mole_frac_out''"
    using b by (rule component_FPTx) simp
  moreover have "holds env (sum_mole_frac_out_expr prm) \<longleftrightarrow>
                  1 = (\<Sum>i\<leftarrow>component_list prm. env (Mole_frac_comp i))" for env
    by (simp add: sum_mole_frac_out_expr_def eval_py_sum comp_def)
  ultimately show ?thesis
    using b by (simp only: sum_mole_frac_out_supporting) blast
qed

theorem FPTx_sum_mole_frac_out_witness:
  "state_bounds params3 \<noteq> None \<and> component_list params3 \<noteq> [] \<and> phase_list params3 \<noteq> [] \<and>
   has_component (FPTx params3 False) ''sum_mole_frac_out'' \<and>
   \<not> has_component (FPTx params3 True) ''sum_mole_frac_out''"
  using FPTx_sum_mole_frac_out [of params3 False] FPTx_sum_mole_frac_out [of params3 True]
  by (auto simp: params3_def has_component_def)

lemma short_list_cases:
  obtains "xs = []" | x where "xs = [x]" | x y where "xs = [x, y]"
  | x y z zs where "xs = x # y # z # zs"
proof (cases xs)
  case Nil
  then show ?thesis using that(1) by simp
next
  case (Cons x ys)
  note xs = Cons
  show ?thesis
  proof (cases ys)
    case Nil
    then show ?thesis using that(2) xs by simp
  next
    case (Cons y zs)
    note ys = Cons
    show ?thesis
    proof (cases zs)
      case Nil
      then show ?thesis using that(3) xs ys by simp
    next
      case (Cons z ws)
      then show ?thesis using that(4) xs ys by simp
    qed
  qed
qed

lemma total_flow_balance_one:
  "phase_list prm = [p1] \<Longrightarrow>
   map_of (supporting_constraints prm ds) ''total_flow_balance'' =
     Some (Constraint (Eq (V (Flow_mol_phase p1)) (V Flow_mol)))"
  by (simp add: supporting_constraints_def)

lemma total_flow_balance_two:
  "phase_list prm = [p1, p2] \<Longrightarrow>
   map_of (supporting_constraints prm ds) ''total_flow_balance'' =
     Some (Constraint (Eq (py_sum (map (\<lambda>p. V (Flow_mol_phase p)) (phase_list prm)))
                          (V Flow_mol)))"
  by (simp add: supporting_constraints_def)

lemma total_flow_balance_many:
  "phase_list prm = p1 # p2 # p3 # ps \<Longrightarrow>
   map_of (supporting_constraints prm ds) ''total_flow_balance'' = None"
  by (simp add: supporting_constraints_def)

lemma sum_mole_frac_many:
  "phase_list prm = p1 # p2 # p3 # ps \<Longrightarrow>
   map_of (supporting_constraints prm ds) ''sum_mole_frac'' =
     Some (Constraint_phase (map (\<lambda>p. (p, general_sum_mole_frac prm p)) (phase_list prm)))"
  by (simp add: supporting_constraints_def)

lemma component_flow_balances_supporting:
  "map_of (supporting_constraints prm ds) ''component_flow_balances'' =
     Some (Constraint_comp
       (map (\<lambda>i. (i, case phase_list prm of
                        [p1] \<Rightarrow> Eq (V (Mole_frac_comp i)) (V (Mole_frac_phase_comp p1 i))
                      | _ \<Rightarrow> general_comp_mass_balance prm i))
            (component_list prm)))"
proof (cases "phase_list prm" rule: short_list_cases)
qed (simp_all add: supporting_constraints_def)

lemma holds_general_comp_mass_balance:
  "holds env (general_comp_mass_balance prm i) \<longleftrightarrow>
     env Flow_mol * env (Mole_frac_comp i) =
       (\<Sum>p\<leftarrow>phase_list prm. env (Flow_mol_phase p) * env (Mole_frac_phase_comp p i))"
  by (simp add: general_comp_mass_balance_def eval_py_sum comp_def)

lemma holds_general_sum_mole_frac:
  "holds env (general_sum_mole_frac prm p) \<longleftrightarrow>
     (\<Sum>i\<leftarrow>component_list prm. env (Mole_frac_phase_comp p i)) = 1"
  by (simp add: general_sum_mole_frac_def eval_py_sum comp_def)

text \<open>
  Claim C2, as the code has it. Whenever the parameter block provides \<open>state_bounds\<close> and the
  component list and the phase list are not empty, FPTx returns a block. If there are one
  or two phases, the block has a constraint \<open>total_flow_balance\<close> that holds exactly when
  the phase molar flows sum to the total molar flow. If there are three or more, it has no
  \<open>total_flow_balance\<close>, and has instead the constraint \<open>sum_mole_frac\<close> indexed by phase,
  which holds for a phase exactly when that phase's mole fractions sum to 1. For every
  phase list it has the indexed constraint \<open>component_flow_balances\<close> with one entry per
  component: the direct equality of \<open>mole_frac_comp[i]\<close> and \<open>mole_frac_phase_comp[p, i]\<close>
  for a single phase \<open>p\<close>, and otherwise the balance of \<open>flow_mol * mole_frac_comp[i]\<close> with
  the sum over the phases of \<open>flow_mol_phase[p] * mole_frac_phase_comp[p, i]\<close>.
\<close>

theorem FPTx_material_balances:
  assumes "state_bounds prm \<noteq> None"
      and "component_list prm \<noteq> []" and "phase_list prm \<noteq> []"
  shows "\<exists>b. FPTx prm defined_state = Inr b \<and>
           (length (phase_list prm) \<le> 2 \<longrightarrow>
              (\<exists>c. component b ''total_flow_balance'' = Some (Constraint c) \<and>
                   (\<forall>env. holds env c \<longleftrightarrow>
                      (\<Sum>p\<leftarrow>phase_list prm. env (Flow_mol_phase p)) = env Flow_mol))) \<and>
           (2 < length (phase_list prm) \<longrightarrow>
              component b ''total_flow_balance'' = None \<and>
              component b ''sum_mole_frac'' =
                Some (Constraint_phase
                  (map (\<lambda>p. (p, general_sum_mole_frac prm p)) (phase_list prm)))) \<and>
           (\<forall>env p. holds env (general_sum_mole_frac prm p) \<longleftrightarrow>
              (\<Sum>i\<leftarrow>component_list prm. env (Mole_frac_phase_comp p i)) = 1) \<and>
           component b ''component_flow_balances'' =
             Some (Constraint_comp
               (map (\<lambda>i. (i, case phase_list prm of
                        [p1] \<Rightarrow> Eq (V (Mole_frac_comp i)) (V (Mole_frac_phase_comp p1 i))
                      | _ \<Rightarrow> general_comp_mass_balance prm i))
                    (component_list prm))) \<and>
           (\<forall>env i. holds env (general_comp_mass_balance prm i) \<longleftrightarrow>
              env Flow_mol * env (Mole_frac_comp i) =
                (\<Sum>p\<leftarrow>phase_list prm. env (Flow_mol_phase p) * env (Mole_frac_phase_comp p i)))"
proof -
  obtain b where b: "FPTx prm defined_state = Inr b"
    using assms FPTx_Inr_iff by blast
  have tot: "component b ''total_flow_balance'' =
          map_of (supporting_constraints prm defined_state) ''total_flow_balance''"
    using b by (rule component_FPTx) simp
  have smf: "component b ''sum_mole_frac'' =
          map_of (supporting_constraints prm defined_state) ''sum_mole_frac''"
    using b by (rule component_FPTx) simp
  have cmp: "component b ''component_flow_balances'' =
          map_of (supporting_constraints prm defined_state) ''component_flow_balances''"
    using b by (rule component_FPTx) simp
  have small: "\<exists>c. component b ''total_flow_balance'' = Some (Constraint c) \<and>
                   (\<forall>env. holds env c \<longleftrightarrow>
                      (\<Sum>p\<leftarrow>phase_list prm. env (Flow_mol_phase p)) = env Flow_mol)"
    if le: "length (phase_list prm) \<le> 2"
  proof (cases "phase_list prm" rule: short_list_cases)
    case 1
    then show ?thesis using assms(3) by simp
  next
    case (2 x)
    then show ?thesis by (simp add: tot total_flow_balance_one)
  next
    case (3 x y)
    then show ?thesis by (simp add: tot total_flow_balance_two eval_py_sum)
  next
    case (4 x y z zs)
    then show ?thesis using le by simp
  qed
  have large: "component b ''total_flow_balance'' = None \<and>
              component b ''sum_mole_frac'' =
                Some (Constraint_phase
                  (map (\<lambda>p. (p, general_sum_mole_frac prm p)) (phase_list prm)))"
    if gt: "2 < length (phase_list prm)"
  proof (cases "phase_list prm" rule: short_list_cases)
    case (4 x y z zs)
    then show ?thesis
      by (simp only: tot smf total_flow_balance_many sum_mole_frac_many simp_thms)
  qed (use gt in simp_all)
  have cmp': "component b ''component_flow_balances'' =
             Some (Constraint_comp
               (map (\<lambda>i. (i, case phase_list prm of
                        [p1] \<Rightarrow> Eq (V (Mole_frac_comp i)) (V (Mole_frac_phase_comp p1 i))
                      | _ \<Rightarrow> general_comp_mass_balance prm i))
                    (component_list prm)))"
    by (simp only: cmp component_flow_balances_supporting)
  show ?thesis
  proof (rule exI [of _ b], intro conjI impI allI)
    show "FPTx prm defined_state = Inr b" by (rule b)
  next
    assume "length (phase_list prm) \<le> 2"
    then show "\<exists>c. component b ''total_flow_balance'' = Some (Constraint c) \<and>
                   (\<forall>env. holds env c \<longleftrightarrow>
                      (\<Sum>p\<leftarrow>phase_list prm. env (Flow_mol_phase p)) = env Flow_mol)"
      by (rule small)
  next
    assume "2 < length (phase_list prm)"
    then show "component b ''total_flow_balance'' = None"
      using large by blast
  next
    assume "2 < length (phase_list prm)"
    then show "component b ''sum_mole_frac'' =
                Some (Constraint_phase
                  (map (\<lambda>p. (p, general_sum_mole_frac prm p)) (phase_list prm)))"
      using large by blast
  next
    fix env p
    show "holds env (general_sum_mole_frac prm p) \<longleftrightarrow>
              (\<Sum>i\<leftarrow>component_list prm. env (Mole_frac_phase_comp p i)) = 1"
      by (rule holds_general_sum_mole_frac)
  next
    show "component b ''component_flow_balances'' =
             Some (Constraint_comp
               (map (\<lambda>i. (i, case phase_list prm of
                        [p1] \<Rightarrow> Eq (V (Mole_frac_comp i)) (V (Mole_frac_phase_comp p1 i))
                      | _ \<Rightarrow> general_comp_mass_balance prm i))
                    (component_list prm)))"
      by (rule cmp')
  next
    fix env i
    show "holds env (general_comp_mass_balance prm i) \<longleftrightarrow>
              env Flow_mol * env (Mole_frac_comp i) =
                (\<Sum>p\<leftarrow>phase_list prm. env (Flow_mol_phase p) * env (Mole_frac_phase_comp p i))"
      by (rule holds_general_comp_mass_balance)
  qed
qed

theorem FPTx_material_balances_witness:
  "state_bounds params2 \<noteq> None \<and> component_list params2 \<noteq> [] \<and> phase_list params2 \<noteq> [] \<and>
   length (phase_list params2) \<le> 2 \<and> 2 < length (phase_list params3) \<and>
   has_component (FPTx params2 True) ''total_flow_balance'' \<and>
   has_component (FPTx params2 True) ''component_flow_balances'' \<and>
   has_component (FPTx params3 True) ''component_flow_balances'' \<and>
   has_component (FPTx params3 True) ''sum_mole_frac''"
proof -
  have ne2: "state_bounds params2 \<noteq> None" "component_list params2 \<noteq> []"
    "phase_list params2 \<noteq> []"
    by (simp_all add: params2_def)
  have ne3: "state_bounds params3 \<noteq> None" "component_list params3 \<noteq> []"
    "phase_list params3 \<noteq> []"
    by (simp_all add: params3_def)
  have le: "length (phase_list params2) \<le> 2" and gt: "2 < length (phase_list params3)"
    by (simp_all add: params2_def params3_def)
  have "has_component (FPTx params2 True) ''total_flow_balance'' \<and>
        has_component (FPTx params2 True) ''component_flow_balances''"
    using FPTx_material_balances [OF ne2, of True] le
    by (elim exE conjE) (auto simp: has_component_def)
  moreover have "has_component (FPTx params3 True) ''component_flow_balances'' \<and>
      has_component (FPTx params3 True) ''sum_mole_frac''"
    using FPTx_material_balances [OF ne3, of True] gt
    by (elim exE conjE) (simp add: has_component_def)
  ultimately show ?thesis using ne2 le gt by simp
qed

text \<open>
  Claim C2 as stated fails for three phases: FPTx returns a block, and the block has no
  \<open>total_flow_balance\<close> constraint.
\<close>

theorem FPTx_total_flow_balance_counterexample:
  "\<not> isl (FPTx params3 False) \<and> \<not> has_component (FPTx params3 False) ''total_flow_balance''"
  by (simp add: has_component_def FPTx_def get_bounds_def inv_len_def params3_def component_def
      state_variables_def supporting_constraints_def)

section \<open>Properties of the Product block\<close>

text \<open>The three ways \<open>build\<close> raises.\<close>

lemma Product_build_useDefault:
  "property_package cfg = useDefault \<Longrightarrow> Product_build cfg time_domain blk0 = Inl AttributeError"
  by (simp add: Product_build_def call_build_state_block_def)

lemma Product_build_repeated_keyword:
  assumes "property_package cfg = PhysicalParameterBlock svars"
      and "k \<in> fst ` set (property_package_args cfg)"
      and "k \<in> {''doc'', ''defined_state'', ''has_phase_equilibrium''}"
  shows "Product_build cfg time_domain blk0 = Inl TypeError"
proof -
  have "\<exists>k \<in> set (map fst (property_package_args cfg)).
          k \<in> {''doc'', ''defined_state'', ''has_phase_equilibrium''}"
    using assms(2,3) by auto
  then have "call_build_state_block cfg time_domain = Inl TypeError"
    using assms(1) by (simp only: call_build_state_block_def property_package.case if_True)
  then show ?thesis by (simp add: Product_build_def)
qed

lemma Product_build_empty_time:
  assumes "property_package cfg = PhysicalParameterBlock svars"
      and "\<forall>k \<in> set (map fst (property_package_args cfg)).
             k \<notin> {''doc'', ''defined_state'', ''has_phase_equilibrium''}"
  shows "Product_build cfg [] blk0 = Inl IndexError"
  using assms
  by (auto simp: Product_build_def call_build_state_block_def first_state_vars_def Let_def)




section \<open>Properties of the compression stage\<close>

lemma setup_vane_diffuser_cases:
  "setup_vane_diffuser cfg blk = Inl ConfigurationError \<or> (\<exists>blk'. setup_vane_diffuser cfg blk = Inr blk')"
  by (auto simp: setup_vane_diffuser_def Let_def split: option.splits)

text \<open>
  The two error cases: a diffuser (or impeller) type that is neither of the two standard
  ones, with no callback, raises ConfigurationError.
\<close>

lemma CompressionStage_build_no_vane_diffuser:
  assumes "vane_diffuser_type cfg \<noteq> Some vane_diffuser"
      and "vane_diffuser_type cfg \<noteq> Some vaneless_diffuser"
      and "vane_diffuser_callback cfg = None"
  shows "CompressionStage_build cfg blk = Inl ConfigurationError"
  using assms by (simp add: CompressionStage_build_def setup_vane_diffuser_def)

lemma CompressionStage_build_no_impeller:
  assumes "impeller_type cfg \<noteq> Some cover_impeller"
      and "impeller_type cfg \<noteq> Some open_impeller"
      and "impeller_callback cfg = None"
  shows "CompressionStage_build cfg blk = Inl ConfigurationError"
proof -
  have "setup_impeller cfg b = Inl ConfigurationError" for b
    using assms by (simp add: setup_impeller_def)
  then show ?thesis
    using setup_vane_diffuser_cases [of cfg blk]
    by (auto simp: CompressionStage_build_def)
qed

lemma setup_vane_diffuser_not_custom_callback:
  assumes "vane_diffuser_type cfg \<noteq> Some custom_diffuser"
      and "vane_diffuser_callback cfg = Some cb"
  shows "setup_vane_diffuser cfg blk = Inr (log_warning ''A valve diffuser type is not custom.'' blk)"
  using assms by (simp add: setup_vane_diffuser_def)

lemma setup_impeller_not_custom_callback:
  assumes "impeller_type cfg \<noteq> Some custom_impeller"
      and "impeller_callback cfg = Some cb"
  shows "setup_impeller cfg blk = Inr (log_warning ''An impeller type is not custom.'' blk)"
  using assms by (simp add: setup_impeller_def)

text \<open>
  Claim C10 at a concrete stage: the vane diffuser is selected and a vane diffuser callback is
  passed as well. \<open>build\<close> logs the warning and does not call the callback, but it adds
  neither \<open>polytropic_head_coeff_eqn\<close> nor \<open>polytropic_efficiency_eqn\<close>: the \<open>elif\<close>
  branches that build the standard equations are skipped once the warning branch is taken.
  Without the callback the same config builds both equations.
\<close>

theorem CompressionStage_build_vane_with_callback:
  "constraint_names (CompressionStage_build stage_config_vane_with_callback stage0) =
     [''impeller_work_coeff_eqn'', ''polytropic_head_coeff_vaned_diffuser_eqn'', ''eff_p_v_cons''] \<and>
   logged_warnings (CompressionStage_build stage_config_vane_with_callback stage0) =
     [''A valve diffuser type is not custom.''] \<and>
   constraint_names (CompressionStage_build
       (stage_config_vane_with_callback\<lparr>vane_diffuser_callback := None\<rparr>) stage0) =
     [''polytropic_head_coeff_eqn'', ''polytropic_efficiency_eqn'',
      ''impeller_work_coeff_eqn'', ''polytropic_head_coeff_vaned_diffuser_eqn'', ''eff_p_v_cons'']"
  by (simp add: CompressionStage_build_def setup_vane_diffuser_def setup_impeller_def
      stage_config_vane_with_callback_def stage0_def constraint_names_def logged_warnings_def
      log_warning_def add_constraint_def build_cover_impeller_equations_def
      build_vane_diffuser_equations_def)

section \<open>Properties of the generic property package core\<close>

text \<open>
  Claim C6. \<open>get_method(block, option)\<close> returns the configured function itself when the
  config entry is a function, the function of the same name found in the module when the
  entry is a module, and raises GenericPropertyPackageError when the entry is None,
  AttributeError when the config has no such option, and ConfigurationError when the entry
  is neither a function nor a module.
\<close>

theorem get_method_dispatch:
  "(map_of (params_config blk) opt = Some (PyFunction f) \<longrightarrow>
      get_method blk opt = Inr (PyFunction f)) \<and>
   (map_of (params_config blk) opt = Some (PyModule m attrs) \<and>
      map_of attrs opt = Some (PyFunction g) \<longrightarrow>
      get_method blk opt = Inr (PyFunction g)) \<and>
   (map_of (params_config blk) opt = Some PyNone \<longrightarrow>
      get_method blk opt = Inl GenericPropertyPackageError) \<and>
   (map_of (params_config blk) opt = None \<longrightarrow>
      get_method blk opt = Inl AttributeError) \<and>
   (map_of (params_config blk) opt = Some v \<and> v \<noteq> PyNone \<and>
      (\<forall>f. v \<noteq> PyFunction f) \<and> (\<forall>m attrs. v \<noteq> PyModule m attrs) \<longrightarrow>
      get_method blk opt = Inl ConfigurationError)"
  by (cases v) (auto simp: get_method_def)

theorem get_method_dispatch_witness:
  "get_method (frame (PyFunction ''dummy_option'')) ''dummy_option'' = Inr (PyFunction ''dummy_option'') \<and>
   get_method (frame test_module) ''dummy_option'' = Inr (PyFunction ''dummy_option'') \<and>
   get_method (frame PyNone) ''dummy_option'' = Inl GenericPropertyPackageError \<and>
   get_method (frame PyNone) ''foo'' = Inl AttributeError \<and>
   get_method (frame (PyStr ''foo'')) ''dummy_option'' = Inl ConfigurationError"
  using get_method_dispatch [where blk = "frame (PyFunction ''dummy_option'')"
          and opt = "''dummy_option''" and f = "''dummy_option''"]
        get_method_dispatch [where blk = "frame test_module" and opt = "''dummy_option''"
          and m = "''test_generic_property''"
          and attrs = "[(''dummy_option'', PyFunction ''dummy_option'')]"
          and g = "''dummy_option''"]
        get_method_dispatch [where blk = "frame PyNone" and opt = "''dummy_option''"]
        get_method_dispatch [where blk = "frame PyNone" and opt = "''foo''"]
        get_method_dispatch [where blk = "frame (PyStr ''foo'')" and opt = "''dummy_option''"
          and v = "PyStr ''foo''"]
  by (simp add: frame_def test_module_def)

lemma list_all_valid_phase_component_list:
  assumes "valid_phase_component_list comps phases pcl" and "(p, js) \<in> set pcl"
  shows "p \<in> set phases" and "j \<in> set js \<Longrightarrow> j \<in> set comps"
  using assms by (auto simp: valid_phase_component_list_def list_all_iff)

text \<open>
  Claim C3. Building a generic parameter block raises ConfigurationError when no component
  list is provided, when no phase list is provided, when the phase-component list names a
  phase outside the phase list or a component outside the component list, and when exactly
  one of the two phase-equilibrium arguments is provided; when both are provided and the
  dict is valid, the block's \<open>phase_equilibrium_list\<close> is the dict and its
  \<open>phase_equilibrium_idx\<close> holds exactly the keys of the dict.
\<close>

theorem GenericParameterData_build_checks:
  "(gc_component_list cfg = None \<longrightarrow>
      GenericParameterData_build cfg = Inl ConfigurationError) \<and>
   (gc_phase_list cfg = None \<longrightarrow>
      GenericParameterData_build cfg = Inl ConfigurationError) \<and>
   (gc_phase_component_list cfg = Some pcl \<and> (p, js) \<in> set pcl \<and>
      gc_phase_list cfg = Some phases \<and> p \<notin> set phases \<longrightarrow>
      GenericParameterData_build cfg = Inl ConfigurationError) \<and>
   (gc_phase_component_list cfg = Some pcl \<and> (p, js) \<in> set pcl \<and> j \<in> set js \<and>
      gc_component_list cfg = Some comps \<and> j \<notin> set comps \<longrightarrow>
      GenericParameterData_build cfg = Inl ConfigurationError) \<and>
   ((gc_phase_equilibrium_formulation cfg = None) \<noteq> (gc_phase_equilibrium_dict cfg = None) \<longrightarrow>
      GenericParameterData_build cfg = Inl ConfigurationError) \<and>
   (gc_component_list cfg = Some comps \<and> gc_phase_list cfg = Some phases \<and>
      (gc_phase_component_list cfg = None \<or>
       gc_phase_component_list cfg = Some pcl \<and> valid_phase_component_list comps phases pcl) \<and>
      gc_phase_equilibrium_formulation cfg \<noteq> None \<and>
      gc_phase_equilibrium_dict cfg = Some (PyDict d) \<and>
      (\<forall>(k, v) \<in> set d. valid_phase_equilibrium comps phases v) \<longrightarrow>
      (\<exists>b. GenericParameterData_build cfg = Inr b \<and>
           phase_equilibrium_list b = Some d \<and>
           phase_equilibrium_idx b = Some (map fst d)))"
proof (intro conjI impI)
  assume "gc_component_list cfg = None"
  then show "GenericParameterData_build cfg = Inl ConfigurationError"
    by (simp add: GenericParameterData_build_def)
next
  assume "gc_phase_list cfg = None"
  then show "GenericParameterData_build cfg = Inl ConfigurationError"
    by (simp add: GenericParameterData_build_def split: option.splits)
next
  assume a: "gc_phase_component_list cfg = Some pcl \<and> (p, js) \<in> set pcl \<and>
      gc_phase_list cfg = Some phases \<and> p \<notin> set phases"
  then have "\<not> valid_phase_component_list comps' phases pcl" for comps'
    using list_all_valid_phase_component_list(1) by blast
  with a show "GenericParameterData_build cfg = Inl ConfigurationError"
    by (simp add: GenericParameterData_build_def split: option.splits)
next
  assume a: "gc_phase_component_list cfg = Some pcl \<and> (p, js) \<in> set pcl \<and> j \<in> set js \<and>
      gc_component_list cfg = Some comps \<and> j \<notin> set comps"
  then have "\<not> valid_phase_component_list comps phases' pcl" for phases'
    using list_all_valid_phase_component_list(2) by blast
  with a show "GenericParameterData_build cfg = Inl ConfigurationError"
    by (simp add: GenericParameterData_build_def split: option.splits)
next
  assume "(gc_phase_equilibrium_formulation cfg = None) \<noteq> (gc_phase_equilibrium_dict cfg = None)"
  then show "GenericParameterData_build cfg = Inl ConfigurationError"
    by (auto simp: GenericParameterData_build_def split: option.splits)
next
  assume a: "gc_component_list cfg = Some comps \<and> gc_phase_list cfg = Some phases \<and>
      (gc_phase_component_list cfg = None \<or>
       gc_phase_component_list cfg = Some pcl \<and> valid_phase_component_list comps phases pcl) \<and>
      gc_phase_equilibrium_formulation cfg \<noteq> None \<and>
      gc_phase_equilibrium_dict cfg = Some (PyDict d) \<and>
      (\<forall>(k, v) \<in> set d. valid_phase_equilibrium comps phases v)"
  then have "list_all (\<lambda>(k, v). valid_phase_equilibrium comps phases v) d"
    by (auto simp: list_all_iff)
  with a show "\<exists>b. GenericParameterData_build cfg = Inr b \<and>
           phase_equilibrium_list b = Some d \<and>
           phase_equilibrium_idx b = Some (map fst d)"
    by (auto simp: GenericParameterData_build_def)
qed


theorem GenericParameterData_build_checks_witness:
  "GenericParameterData_build (test_config\<lparr>gc_component_list := None, gc_phase_list := None\<rparr>)
     = Inl ConfigurationError \<and>
   GenericParameterData_build (test_config\<lparr>gc_phase_list := None\<rparr>) = Inl ConfigurationError \<and>
   GenericParameterData_build (test_config\<lparr>gc_phase_component_list :=
       Some [(PyInt 1, [PyStr ''a'', PyStr ''b'', PyStr ''c'']),
             (PyInt 2, [PyStr ''a'', PyStr ''b'', PyStr ''c'']),
             (PyInt 3, [PyStr ''a'', PyStr ''b'', PyStr ''c''])]\<rparr>) = Inl ConfigurationError \<and>
   GenericParameterData_build (test_config\<lparr>gc_phase_component_list :=
       Some [(PyInt 1, [PyStr ''a'', PyStr ''b'', PyStr ''c'', PyStr ''d'']),
             (PyInt 2, [PyStr ''a'', PyStr ''b'', PyStr ''c'', PyStr ''d''])]\<rparr>)
     = Inl ConfigurationError \<and>
   GenericParameterData_build
       (test_config\<lparr>gc_phase_equilibrium_formulation := Some (PyStr ''foo'')\<rparr>)
     = Inl ConfigurationError \<and>
   GenericParameterData_build (test_config\<lparr>gc_phase_equilibrium_dict := Some (PyDict [])\<rparr>)
     = Inl ConfigurationError \<and>
   map_sum id phase_equilibrium_list (GenericParameterData_build
       (test_config\<lparr>gc_phase_equilibrium_formulation := Some (PyStr ''foo''),
                     gc_phase_equilibrium_dict := Some (PyDict test_phase_equilibrium_dict)\<rparr>))
     = Inr (Some test_phase_equilibrium_dict) \<and>
   map_sum id phase_equilibrium_idx (GenericParameterData_build
       (test_config\<lparr>gc_phase_equilibrium_formulation := Some (PyStr ''foo''),
                     gc_phase_equilibrium_dict := Some (PyDict test_phase_equilibrium_dict)\<rparr>))
     = Inr (Some [PyInt 1])"
proof -
  let ?abc = "[PyStr ''a'', PyStr ''b'', PyStr ''c'']"
  let ?abcd = "[PyStr ''a'', PyStr ''b'', PyStr ''c'', PyStr ''d'']"
  let ?pcl1 = "[(PyInt 1, ?abc), (PyInt 2, ?abc), (PyInt 3, ?abc)]"
  let ?pcl2 = "[(PyInt 1, ?abcd), (PyInt 2, ?abcd)]"
  let ?ok = "test_config\<lparr>gc_phase_equilibrium_formulation := Some (PyStr ''foo''),
                     gc_phase_equilibrium_dict := Some (PyDict test_phase_equilibrium_dict)\<rparr>"
  have 1: "GenericParameterData_build (test_config\<lparr>gc_component_list := None, gc_phase_list := None\<rparr>)
     = Inl ConfigurationError"
    using GenericParameterData_build_checks
      [where cfg = "test_config\<lparr>gc_component_list := None, gc_phase_list := None\<rparr>"]
    by simp
  have 2: "GenericParameterData_build (test_config\<lparr>gc_phase_list := None\<rparr>) = Inl ConfigurationError"
    using GenericParameterData_build_checks [where cfg = "test_config\<lparr>gc_phase_list := None\<rparr>"]
    by simp
  have 3: "GenericParameterData_build (test_config\<lparr>gc_phase_component_list := Some ?pcl1\<rparr>)
     = Inl ConfigurationError"
    using GenericParameterData_build_checks
      [where cfg = "test_config\<lparr>gc_phase_component_list := Some ?pcl1\<rparr>" and pcl = ?pcl1
         and p = "PyInt 3" and js = ?abc and phases = "[PyInt 1, PyInt 2]"]
    by (simp add: test_config_def)
  have 4: "GenericParameterData_build (test_config\<lparr>gc_phase_component_list := Some ?pcl2\<rparr>)
     = Inl ConfigurationError"
    using GenericParameterData_build_checks
      [where cfg = "test_config\<lparr>gc_phase_component_list := Some ?pcl2\<rparr>" and pcl = ?pcl2
         and p = "PyInt 1" and js = ?abcd and j = "PyStr ''d''" and comps = ?abc]
    by (simp add: test_config_def)
  have 5: "GenericParameterData_build
       (test_config\<lparr>gc_phase_equilibrium_formulation := Some (PyStr ''foo'')\<rparr>)
     = Inl ConfigurationError"
    using GenericParameterData_build_checks
      [where cfg = "test_config\<lparr>gc_phase_equilibrium_formulation := Some (PyStr ''foo'')\<rparr>"]
    by (simp add: test_config_def)
  have 6: "GenericParameterData_build (test_config\<lparr>gc_phase_equilibrium_dict := Some (PyDict [])\<rparr>)
     = Inl ConfigurationError"
    using GenericParameterData_build_checks
      [where cfg = "test_config\<lparr>gc_phase_equilibrium_dict := Some (PyDict [])\<rparr>"]
    by (simp add: test_config_def)
  have "\<exists>b. GenericParameterData_build ?ok = Inr b \<and>
           phase_equilibrium_list b = Some test_phase_equilibrium_dict \<and>
           phase_equilibrium_idx b = Some (map fst test_phase_equilibrium_dict)"
    using GenericParameterData_build_checks
      [where cfg = ?ok and comps = ?abc and phases = "[PyInt 1, PyInt 2]"
         and d = test_phase_equilibrium_dict]
    by (simp add: test_config_def test_phase_equilibrium_dict_def)
  then have 7: "map_sum id phase_equilibrium_list (GenericParameterData_build ?ok)
       = Inr (Some test_phase_equilibrium_dict)"
    and 8: "map_sum id phase_equilibrium_idx (GenericParameterData_build ?ok) = Inr (Some [PyInt 1])"
    by (auto simp: test_phase_equilibrium_dict_def)
  from 1 2 3 4 5 6 7 8 show ?thesis by (intro conjI)
qed

end
